theory Spec2Isabelle
  imports Complex_Main
begin

section \<open>Module-level dimensions\<close>

text \<open>
  The module \<^verbatim>\<open>main.assy.py\<close> starts with a flat block of dimensions (lines 19 to 38).
  Python's numbers are modelled as real numbers: integer literals and the results of
  \<^verbatim>\<open>/\<close>, \<^verbatim>\<open>*\<close> and \<^verbatim>\<open>math.sqrt\<close> all live in \<^typ>\<open>real\<close>, with exact arithmetic.
  Every division of the program divides by the literal \<^verbatim>\<open>2\<close> or by \<^verbatim>\<open>math.sqrt(2)\<close>,
  so no division can raise \<^verbatim>\<open>ZeroDivisionError\<close> and HOL's total division agrees with
  Python's on every quotient that is formed.
\<close>

definition BASE_WIDTH :: real where
  "BASE_WIDTH = 50"

definition BASE_LENGTH :: real where
  "BASE_LENGTH = 100"

definition PIN_DISTANCE :: real where
  "PIN_DISTANCE = BASE_LENGTH * 0.5"

definition PIN_DIAMETER :: real where
  "PIN_DIAMETER = 4"

definition DISK_DIAMETER :: real where
  "DISK_DIAMETER = 2 * PIN_DISTANCE / sqrt 2 + PIN_DIAMETER"

definition SLIDING_CIRCLE_DIAMETER :: real where
  "SLIDING_CIRCLE_DIAMETER = DISK_DIAMETER * 0.8"

definition BEARING_HEIGHT :: real where
  "BEARING_HEIGHT = 6"

definition BEARING_DIAMETER :: real where
  "BEARING_DIAMETER = 19"

definition BEARING_INNER_DIAMETER :: real where
  "BEARING_INNER_DIAMETER = 6"

definition PLATE_THICKNESS :: real where
  "PLATE_THICKNESS = 2"

definition PIN_HEIGHT :: real where
  "PIN_HEIGHT = 8"

definition LIP_HEIGHT :: real where
  "LIP_HEIGHT = 2"

definition DISK_TOLERANCE :: real where
  "DISK_TOLERANCE = 0.5"

definition BEARING_PLATE_OFFSET :: real where
  "BEARING_PLATE_OFFSET = 3"

definition CIRCLES_PART_HEIGHT :: real where
  "CIRCLES_PART_HEIGHT = PLATE_THICKNESS + LIP_HEIGHT + BEARING_PLATE_OFFSET"

definition CROSS_PART_HEIGHT :: real where
  "CROSS_PART_HEIGHT = CIRCLES_PART_HEIGHT + PLATE_THICKNESS"

section \<open>Class-level dimensions\<close>

text \<open>
  Each class body binds its own attributes; an attribute \<^verbatim>\<open>C.X\<close> of the source is the
  constant \<open>C_X\<close> here. \<^verbatim>\<open>RoundedRectangularPlateWithPins.PIN_DIAMETER\<close> and
  \<^verbatim>\<open>RoundedRectangularPlateWithPins.PIN_HEIGHT\<close> are literals of the class and differ from
  the module-level names they shadow.
\<close>

definition BallBearing626D_OUTER_DIAMETER :: real where
  "BallBearing626D_OUTER_DIAMETER = BEARING_DIAMETER"

definition BallBearing626D_INNER_DIAMETER :: real where
  "BallBearing626D_INNER_DIAMETER = BEARING_INNER_DIAMETER"

definition BallBearing626D_HEIGHT :: real where
  "BallBearing626D_HEIGHT = BEARING_HEIGHT"

definition RoundedRectangularPlateWithPins_WIDTH :: real where
  "RoundedRectangularPlateWithPins_WIDTH = BASE_WIDTH"

definition RoundedRectangularPlateWithPins_LENGTH :: real where
  "RoundedRectangularPlateWithPins_LENGTH = BASE_LENGTH"

definition RoundedRectangularPlateWithPins_PIN_DIAMETER :: real where
  "RoundedRectangularPlateWithPins_PIN_DIAMETER = 6"

definition RoundedRectangularPlateWithPins_LIP_DIAMETER :: real where
  "RoundedRectangularPlateWithPins_LIP_DIAMETER = 8"

definition RoundedRectangularPlateWithPins_LIP_HEIGHT :: real where
  "RoundedRectangularPlateWithPins_LIP_HEIGHT = LIP_HEIGHT"

definition RoundedRectangularPlateWithPins_PIN_HEIGHT :: real where
  "RoundedRectangularPlateWithPins_PIN_HEIGHT = 6"

definition RoundedRectangularPlateWithPins_PIN_DISTANCE :: real where
  "RoundedRectangularPlateWithPins_PIN_DISTANCE = PIN_DISTANCE"

definition RoundedRectangularPlateWithPins_FILLET_RADIUS :: real where
  "RoundedRectangularPlateWithPins_FILLET_RADIUS = 5"

definition RoundedRectangularPlateWithPins_PLATE_THICKNESS :: real where
  "RoundedRectangularPlateWithPins_PLATE_THICKNESS = PLATE_THICKNESS"

definition GenevaDiskAndHoles_PART_THICKNESS :: real where
  "GenevaDiskAndHoles_PART_THICKNESS = 5"

definition GenevaDiskAndHoles_STEP_HEIGHT :: real where
  "GenevaDiskAndHoles_STEP_HEIGHT = GenevaDiskAndHoles_PART_THICKNESS / 2"

definition GenevaDiskAndHoles_DISK_DIAMETER :: real where
  "GenevaDiskAndHoles_DISK_DIAMETER = DISK_DIAMETER"

definition GenevaDiskAndHoles_TOP_CIRCLE_DIAMETER :: real where
  "GenevaDiskAndHoles_TOP_CIRCLE_DIAMETER = SLIDING_CIRCLE_DIAMETER"

definition GenevaDiskAndHoles_CUT_DIAMETER :: real where
  "GenevaDiskAndHoles_CUT_DIAMETER = SLIDING_CIRCLE_DIAMETER"

definition GenevaDiskAndHoles_CUT_OFFSET :: real where
  "GenevaDiskAndHoles_CUT_OFFSET = PIN_DISTANCE"

definition GenevaDiskAndHoles_LIP_HEIGHT :: real where
  "GenevaDiskAndHoles_LIP_HEIGHT = LIP_HEIGHT"

definition GenevaDriveCrossSection_WIDTH :: real where
  "GenevaDriveCrossSection_WIDTH = SLIDING_CIRCLE_DIAMETER"

definition GenevaDriveCrossSection_CUT_OFFSET :: real where
  "GenevaDriveCrossSection_CUT_OFFSET = PIN_DISTANCE"

definition GenevaDriveCrossSection_CUT_RADIUS :: real where
  "GenevaDriveCrossSection_CUT_RADIUS = SLIDING_CIRCLE_DIAMETER / 2"

definition GenevaDriveCrossSection_SLOT_START_OFFSET :: real where
  "GenevaDriveCrossSection_SLOT_START_OFFSET = PIN_DISTANCE - DISK_DIAMETER / 2"

definition GenevaDriveCrossSection_CENTER_SLOT_OFFSET :: real where
  "GenevaDriveCrossSection_CENTER_SLOT_OFFSET = GenevaDriveCrossSection_WIDTH / 2"

definition GenevaDriveCrossSection_SLOT_LENGTH :: real where
  "GenevaDriveCrossSection_SLOT_LENGTH =
     (GenevaDriveCrossSection_CENTER_SLOT_OFFSET - GenevaDriveCrossSection_SLOT_START_OFFSET) * 2"

definition GenevaDriveCrossSection_SLOT_WIDTH :: real where
  "GenevaDriveCrossSection_SLOT_WIDTH = PIN_DIAMETER + 1"

definition GenevaDriveCrossSection_CROSS_WIDTH :: real where
  "GenevaDriveCrossSection_CROSS_WIDTH = 1 + BEARING_HEIGHT - BEARING_PLATE_OFFSET"

section \<open>The objects of the CAD foundation library\<close>

text \<open>
  The library \<^verbatim>\<open>foundation\<close> is not part of the repository. Its objects are modelled as
  the record of the call that made them: a value of one of the datatypes below names
  the library entry point and carries the arguments the program passed, nothing more.
  No geometry is computed and nothing is assumed about what the library does with
  the arguments.
\<close>

datatype plane =
    xy_plane
  | yz_plane
  | parallel_plane plane real

datatype sketch = Sketch plane

datatype point =
    origin sketch
  | Point sketch real real

datatype line = Line point point

datatype axis = Axis line

text \<open>
  The pencil of a sketch is mutated by \<^verbatim>\<open>line_to\<close> and \<^verbatim>\<open>line\<close>; its value is the sketch
  it draws on and the calls made on it so far, oldest first.
\<close>

datatype pen_call =
    LineTo real real
  | LineBy real real

datatype pencil = Pencil sketch "pen_call list"

datatype shape =
    Circle point real
  | RoundedCornerRectangle point real real real
  | Polygon "line list"
  | ClosedPath pencil

text \<open>
  \<^verbatim>\<open>Extrusion\<close> is called in two ways: with one positional number after the shape
  (\<open>Height\<close>), or with the keywords \<^verbatim>\<open>start\<close> and \<^verbatim>\<open>end\<close> (\<open>StartEnd\<close>). The keyword
  \<^verbatim>\<open>cut\<close> is \<open>None\<close> where the call leaves it out.
\<close>

datatype extent =
    Height real
  | StartEnd real real

datatype operation =
    Extrusion shape extent "bool option"
  | Lathe shape axis

text \<open>
  A part is the list of the mutating calls made on it, oldest first: the call of the
  base class's initialiser, \<^verbatim>\<open>add_operation\<close> and \<^verbatim>\<open>paint\<close>. A transform helper is the list
  of its translations. An assembly is the list of the calls and attribute assignments
  made on it.
\<close>

datatype part_call =
    PartInit
  | AddOperation operation
  | Paint string

type_synonym part = "part_call list"

datatype tf_call =
    TranslateX real
  | TranslateZ real

type_synonym tf = "tf_call list"

datatype component =
    PartComponent part
  | AssemblyComponent "assembly_call list"
and assembly_call =
    AssemblyInit
  | SetLipHeight real
  | AddComponent component "tf option"

type_synonym assembly = "assembly_call list"

section \<open>Calls into the library, and their failure\<close>

text \<open>
  Every interaction with the library (a constructor, a method, a property read) is one
  \<open>cad_call\<close>. The log of a run is the list of the calls that returned, oldest first.
\<close>

datatype cad_call =
    call_Part_init
  | call_Assembly_init
  | call_xy
  | call_yz
  | call_pf
  | call_get_parallel_plane plane real
  | call_Sketch plane
  | call_origin sketch
  | call_pencil sketch
  | call_Point sketch real real
  | call_Circle point real
  | call_from_center_and_sides point real real real
  | call_Line point point
  | call_Polygon "line list"
  | call_Axis line
  | call_Lathe shape axis
  | call_Extrusion shape extent "bool option"
  | call_line_to real real
  | call_line real real
  | call_pen_y
  | call_close
  | call_add_operation operation
  | call_paint string
  | call_TFHelper
  | call_translate_x real
  | call_translate_z real
  | call_get_tf
  | call_add_component component "tf option"
  | call_show assembly

datatype error = LibraryError cad_call

text \<open>
  The library is a parameter of the model. \<open>raises L log c\<close> says whether the library
  raises when call \<open>c\<close> is made after the calls of \<open>log\<close>; \<open>pencil_y L p\<close> is the number
  the property \<^verbatim>\<open>pen.y\<close> returns for pencil \<open>p\<close>, the only number the program reads back
  from the library.
\<close>

record library =
  raises :: "cad_call list \<Rightarrow> cad_call \<Rightarrow> bool"
  pencil_y :: "pencil \<Rightarrow> real"

definition total :: "library \<Rightarrow> bool" where
  "total L = (\<forall>log c. \<not> raises L log c)"

text \<open>
  A computation takes the log and returns either the error that ended it or its result
  with the extended log. The program has no \<^verbatim>\<open>try\<close>, \<^verbatim>\<open>except\<close> or \<^verbatim>\<open>raise\<close>: an exception
  of a call ends every enclosing method, which is what \<open>bind_cad\<close> does.
\<close>

type_synonym 'a cad = "cad_call list \<Rightarrow> error + 'a \<times> cad_call list"

definition return_cad :: "'a \<Rightarrow> 'a cad" where
  "return_cad v = (\<lambda>s. Inr (v, s))"

definition bind_cad :: "'a cad \<Rightarrow> ('a \<Rightarrow> 'b cad) \<Rightarrow> 'b cad" where
  "bind_cad m f = (\<lambda>s. case m s of Inl e \<Rightarrow> Inl e | Inr (v, s') \<Rightarrow> f v s')"

definition call :: "library \<Rightarrow> cad_call \<Rightarrow> 'a \<Rightarrow> 'a cad" where
  "call L c v = (\<lambda>s. if raises L s c then Inl (LibraryError c) else Inr (v, s @ [c]))"

text \<open>A \<^verbatim>\<open>for\<close> loop over a list that updates \<^verbatim>\<open>self\<close>, and a list comprehension.\<close>

primrec cad_foreach :: "'a list \<Rightarrow> ('a \<Rightarrow> 'b \<Rightarrow> 'b cad) \<Rightarrow> 'b \<Rightarrow> 'b cad" where
  "cad_foreach [] body self = return_cad self"
| "cad_foreach (x # xs) body self = bind_cad (body x self) (cad_foreach xs body)"

primrec cad_map :: "('a \<Rightarrow> 'b cad) \<Rightarrow> 'a list \<Rightarrow> 'b list cad" where
  "cad_map f [] = return_cad []"
| "cad_map f (x # xs) =
     bind_cad (f x) (\<lambda>y. bind_cad (cad_map f xs) (\<lambda>ys. return_cad (y # ys)))"

definition py_range :: "nat \<Rightarrow> int list" where
  "py_range n = map int [0..<n]"

section \<open>The library's entry points\<close>

text \<open>
  One definition per entry point the program uses. Each makes its call and, when the
  library does not raise, returns the value that records the call. Methods that mutate
  their receiver take it as last argument and return it updated.
\<close>

definition super_init_Part :: "library \<Rightarrow> part \<Rightarrow> part cad" where
  "super_init_Part L self = call L call_Part_init (self @ [PartInit])"

definition super_init_Assembly :: "library \<Rightarrow> assembly \<Rightarrow> assembly cad" where
  "super_init_Assembly L self = call L call_Assembly_init (self @ [AssemblyInit])"

definition xy :: "library \<Rightarrow> part \<Rightarrow> plane cad" where
  "xy L self = call L call_xy xy_plane"

definition yz :: "library \<Rightarrow> part \<Rightarrow> plane cad" where
  "yz L self = call L call_yz yz_plane"

definition pf :: "library \<Rightarrow> part \<Rightarrow> unit cad" where
  "pf L self = call L call_pf ()"

definition get_parallel_plane :: "library \<Rightarrow> unit \<Rightarrow> plane \<Rightarrow> real \<Rightarrow> plane cad" where
  "get_parallel_plane L factory p offset =
     call L (call_get_parallel_plane p offset) (parallel_plane p offset)"

definition new_Sketch :: "library \<Rightarrow> plane \<Rightarrow> sketch cad" where
  "new_Sketch L p = call L (call_Sketch p) (Sketch p)"

definition sketch_origin :: "library \<Rightarrow> sketch \<Rightarrow> point cad" where
  "sketch_origin L sk = call L (call_origin sk) (origin sk)"

definition sketch_pencil :: "library \<Rightarrow> sketch \<Rightarrow> pencil cad" where
  "sketch_pencil L sk = call L (call_pencil sk) (Pencil sk [])"

definition new_Point :: "library \<Rightarrow> sketch \<Rightarrow> real \<Rightarrow> real \<Rightarrow> point cad" where
  "new_Point L sk x y = call L (call_Point sk x y) (Point sk x y)"

definition new_Circle :: "library \<Rightarrow> point \<Rightarrow> real \<Rightarrow> shape cad" where
  "new_Circle L center radius = call L (call_Circle center radius) (Circle center radius)"

definition from_center_and_sides ::
  "library \<Rightarrow> point \<Rightarrow> real \<Rightarrow> real \<Rightarrow> real \<Rightarrow> shape cad" where
  "from_center_and_sides L center l w r =
     call L (call_from_center_and_sides center l w r) (RoundedCornerRectangle center l w r)"

definition new_Line :: "library \<Rightarrow> point \<Rightarrow> point \<Rightarrow> line cad" where
  "new_Line L p1 p2 = call L (call_Line p1 p2) (Line p1 p2)"

definition new_Polygon :: "library \<Rightarrow> line list \<Rightarrow> shape cad" where
  "new_Polygon L ls = call L (call_Polygon ls) (Polygon ls)"

definition new_Axis :: "library \<Rightarrow> line \<Rightarrow> axis cad" where
  "new_Axis L l = call L (call_Axis l) (Axis l)"

definition new_Lathe :: "library \<Rightarrow> shape \<Rightarrow> axis \<Rightarrow> operation cad" where
  "new_Lathe L sh ax = call L (call_Lathe sh ax) (Lathe sh ax)"

definition new_Extrusion :: "library \<Rightarrow> shape \<Rightarrow> extent \<Rightarrow> bool option \<Rightarrow> operation cad" where
  "new_Extrusion L sh ext ct = call L (call_Extrusion sh ext ct) (Extrusion sh ext ct)"

fun pen_add :: "pen_call \<Rightarrow> pencil \<Rightarrow> pencil" where
  "pen_add c (Pencil sk cs) = Pencil sk (cs @ [c])"

definition pen_line_to :: "library \<Rightarrow> real \<Rightarrow> real \<Rightarrow> pencil \<Rightarrow> pencil cad" where
  "pen_line_to L x y pen = call L (call_line_to x y) (pen_add (LineTo x y) pen)"

definition pen_line :: "library \<Rightarrow> real \<Rightarrow> real \<Rightarrow> pencil \<Rightarrow> pencil cad" where
  "pen_line L dx dy pen = call L (call_line dx dy) (pen_add (LineBy dx dy) pen)"

definition pen_y :: "library \<Rightarrow> pencil \<Rightarrow> real cad" where
  "pen_y L pen = call L call_pen_y (pencil_y L pen)"

definition pen_close :: "library \<Rightarrow> pencil \<Rightarrow> shape cad" where
  "pen_close L pen = call L call_close (ClosedPath pen)"

definition add_operation :: "library \<Rightarrow> operation \<Rightarrow> part \<Rightarrow> part cad" where
  "add_operation L opn self = call L (call_add_operation opn) (self @ [AddOperation opn])"

definition paint :: "library \<Rightarrow> string \<Rightarrow> part \<Rightarrow> part cad" where
  "paint L colour self = call L (call_paint colour) (self @ [Paint colour])"

definition new_TFHelper :: "library \<Rightarrow> tf cad" where
  "new_TFHelper L = call L call_TFHelper []"

definition translate_x :: "library \<Rightarrow> real \<Rightarrow> tf \<Rightarrow> tf cad" where
  "translate_x L v t = call L (call_translate_x v) (t @ [TranslateX v])"

definition translate_z :: "library \<Rightarrow> real \<Rightarrow> tf \<Rightarrow> tf cad" where
  "translate_z L v t = call L (call_translate_z v) (t @ [TranslateZ v])"

definition get_tf :: "library \<Rightarrow> tf \<Rightarrow> tf cad" where
  "get_tf L t = call L call_get_tf t"

definition add_component ::
  "library \<Rightarrow> component \<Rightarrow> tf option \<Rightarrow> assembly \<Rightarrow> assembly cad" where
  "add_component L child t self =
     call L (call_add_component child t) (self @ [AddComponent child t])"

definition show_cad :: "library \<Rightarrow> assembly \<Rightarrow> unit cad" where
  "show_cad L a = call L (call_show a) ()"

section \<open>class BallBearing626D\<close>

definition create_outer_cylinder :: "library \<Rightarrow> part \<Rightarrow> part cad" where
  "create_outer_cylinder L self =
     bind_cad (xy L self) (\<lambda>plane.
     bind_cad (new_Sketch L plane) (\<lambda>sketch.
     bind_cad (sketch_origin L sketch) (\<lambda>center.
     bind_cad (new_Circle L center (BallBearing626D_OUTER_DIAMETER / 2)) (\<lambda>outer_circle.
     bind_cad (new_Extrusion L outer_circle (Height BallBearing626D_HEIGHT) None) (\<lambda>extrusion.
     add_operation L extrusion self)))))"

definition create_inner_hole :: "library \<Rightarrow> part \<Rightarrow> part cad" where
  "create_inner_hole L self =
     bind_cad (xy L self) (\<lambda>plane.
     bind_cad (new_Sketch L plane) (\<lambda>sketch.
     bind_cad (sketch_origin L sketch) (\<lambda>center.
     bind_cad (new_Circle L center (BallBearing626D_INNER_DIAMETER / 2)) (\<lambda>inner_circle.
     bind_cad (new_Extrusion L inner_circle (Height BallBearing626D_HEIGHT) (Some True))
       (\<lambda>hole_extrusion.
     add_operation L hole_extrusion self)))))"

text \<open>The initialiser does not call the base class's initialiser.\<close>

definition BallBearing626D_init :: "library \<Rightarrow> part \<Rightarrow> part cad" where
  "BallBearing626D_init L self =
     bind_cad (create_outer_cylinder L self) (\<lambda>self.
     bind_cad (create_inner_hole L self) (\<lambda>self.
     paint L ''grey'' self))"

definition BallBearing626D_new :: "library \<Rightarrow> part cad" where
  "BallBearing626D_new L = BallBearing626D_init L []"

section \<open>class RoundedRectangularPlateWithPins\<close>

definition create_plate :: "library \<Rightarrow> part \<Rightarrow> part cad" where
  "create_plate L self =
     bind_cad (xy L self) (\<lambda>plane.
     bind_cad (new_Sketch L plane) (\<lambda>sketch.
     bind_cad (sketch_origin L sketch) (\<lambda>center_point.
     bind_cad (from_center_and_sides L center_point
                 RoundedRectangularPlateWithPins_LENGTH
                 RoundedRectangularPlateWithPins_WIDTH
                 RoundedRectangularPlateWithPins_FILLET_RADIUS) (\<lambda>plate.
     bind_cad (new_Extrusion L plate
                 (Height RoundedRectangularPlateWithPins_PLATE_THICKNESS) None) (\<lambda>extrusion.
     add_operation L extrusion self)))))"

definition create_pins :: "library \<Rightarrow> part \<Rightarrow> part cad" where
  "create_pins L self =
     bind_cad (xy L self) (\<lambda>plane.
     bind_cad (new_Sketch L plane) (\<lambda>sketch.
     bind_cad (new_Point L sketch (- RoundedRectangularPlateWithPins_PIN_DISTANCE / 2) 0)
       (\<lambda>pin1_center.
     bind_cad (new_Point L sketch (RoundedRectangularPlateWithPins_PIN_DISTANCE / 2) 0)
       (\<lambda>pin2_center.
     bind_cad (new_Circle L pin1_center (RoundedRectangularPlateWithPins_LIP_DIAMETER / 2))
       (\<lambda>circle1.
     bind_cad (new_Extrusion L circle1
                 (StartEnd RoundedRectangularPlateWithPins_PLATE_THICKNESS CIRCLES_PART_HEIGHT)
                 (Some False)) (\<lambda>pin1.
     bind_cad (add_operation L pin1 self) (\<lambda>self.
     bind_cad (new_Circle L pin1_center (RoundedRectangularPlateWithPins_PIN_DIAMETER / 2))
       (\<lambda>pin_circle.
     bind_cad (new_Extrusion L pin_circle
                 (StartEnd (CIRCLES_PART_HEIGHT - BEARING_PLATE_OFFSET)
                           (CIRCLES_PART_HEIGHT + BEARING_HEIGHT - BEARING_PLATE_OFFSET))
                 (Some False)) (\<lambda>pin.
     bind_cad (add_operation L pin self) (\<lambda>self.
     bind_cad (new_Circle L pin2_center (RoundedRectangularPlateWithPins_LIP_DIAMETER / 2))
       (\<lambda>circle2.
     bind_cad (new_Extrusion L circle2
                 (StartEnd RoundedRectangularPlateWithPins_PLATE_THICKNESS CROSS_PART_HEIGHT)
                 (Some False)) (\<lambda>pin2.
     bind_cad (add_operation L pin2 self) (\<lambda>self.
     bind_cad (new_Circle L pin2_center (RoundedRectangularPlateWithPins_PIN_DIAMETER / 2))
       (\<lambda>pin_circle.
     bind_cad (new_Extrusion L pin_circle
                 (StartEnd (CROSS_PART_HEIGHT - BEARING_PLATE_OFFSET)
                           (CROSS_PART_HEIGHT + BEARING_HEIGHT - BEARING_PLATE_OFFSET))
                 (Some False)) (\<lambda>pin.
     add_operation L pin self)))))))))))))))"

definition RoundedRectangularPlateWithPins_init :: "library \<Rightarrow> part \<Rightarrow> part cad" where
  "RoundedRectangularPlateWithPins_init L self =
     bind_cad (super_init_Part L self) (\<lambda>self.
     bind_cad (create_plate L self) (\<lambda>self.
     bind_cad (create_pins L self) (\<lambda>self.
     paint L ''plywood'' self)))"

definition RoundedRectangularPlateWithPins_new :: "library \<Rightarrow> part cad" where
  "RoundedRectangularPlateWithPins_new L = RoundedRectangularPlateWithPins_init L []"

section \<open>class PlateWithBearingsAssembly\<close>

text \<open>
  \<^verbatim>\<open>self.LIP_HEIGHT = plate.LIP_HEIGHT\<close> assigns an attribute of the assembly; it is
  recorded on the assembly and is no call into the library.
\<close>

definition create_plate_with_bearings :: "library \<Rightarrow> assembly \<Rightarrow> assembly cad" where
  "create_plate_with_bearings L self =
     bind_cad (RoundedRectangularPlateWithPins_new L) (\<lambda>plate.
     bind_cad (return_cad (self @ [SetLipHeight RoundedRectangularPlateWithPins_LIP_HEIGHT]))
       (\<lambda>self.
     bind_cad (add_component L (PartComponent plate) None self) (\<lambda>self.
     bind_cad (BallBearing626D_new L) (\<lambda>bearing1.
     bind_cad (new_TFHelper L) (\<lambda>bearing1_tf.
     bind_cad (translate_x L (- PIN_DISTANCE / 2) bearing1_tf) (\<lambda>bearing1_tf.
     bind_cad (translate_z L (CIRCLES_PART_HEIGHT - BEARING_PLATE_OFFSET) bearing1_tf)
       (\<lambda>bearing1_tf.
     bind_cad (get_tf L bearing1_tf) (\<lambda>t1.
     bind_cad (add_component L (PartComponent bearing1) (Some t1) self) (\<lambda>self.
     bind_cad (BallBearing626D_new L) (\<lambda>bearing2.
     bind_cad (new_TFHelper L) (\<lambda>bearing2_tf.
     bind_cad (translate_x L (PIN_DISTANCE / 2) bearing2_tf) (\<lambda>bearing2_tf.
     bind_cad (translate_z L (CROSS_PART_HEIGHT - BEARING_PLATE_OFFSET) bearing2_tf)
       (\<lambda>bearing2_tf.
     bind_cad (get_tf L bearing2_tf) (\<lambda>t2.
     add_component L (PartComponent bearing2) (Some t2) self))))))))))))))"

definition PlateWithBearingsAssembly_init :: "library \<Rightarrow> assembly \<Rightarrow> assembly cad" where
  "PlateWithBearingsAssembly_init L self =
     bind_cad (super_init_Assembly L self) (\<lambda>self.
     create_plate_with_bearings L self)"

definition PlateWithBearingsAssembly_new :: "library \<Rightarrow> assembly cad" where
  "PlateWithBearingsAssembly_new L = PlateWithBearingsAssembly_init L []"

section \<open>class GenevaDiskAndHoles\<close>

text \<open>
  \<^verbatim>\<open>create_disk\<close> draws the profile of the disk with the pencil of a sketch on the YZ plane
  and revolves it. Three of the \<^verbatim>\<open>line_to\<close> calls pass \<^verbatim>\<open>pen.y\<close>, which is read from the
  library before the call is made.
\<close>

definition create_disk :: "library \<Rightarrow> part \<Rightarrow> part cad" where
  "create_disk L self =
     bind_cad (yz L self) (\<lambda>plane.
     bind_cad (new_Sketch L plane) (\<lambda>sketch.
     bind_cad (sketch_pencil L sketch) (\<lambda>pen.
     bind_cad (pen_line_to L 0 (BEARING_HEIGHT - BEARING_PLATE_OFFSET) pen) (\<lambda>pen.
     bind_cad (pen_line L (BEARING_DIAMETER / 2) 0 pen) (\<lambda>pen.
     bind_cad (pen_line L 0 (- BEARING_HEIGHT + BEARING_PLATE_OFFSET) pen) (\<lambda>pen.
     bind_cad (pen_y L pen) (\<lambda>y.
     bind_cad (pen_line_to L (GenevaDiskAndHoles_DISK_DIAMETER / 2) y pen) (\<lambda>pen.
     bind_cad (pen_line L 0 GenevaDiskAndHoles_STEP_HEIGHT pen) (\<lambda>pen.
     bind_cad (pen_y L pen) (\<lambda>y.
     bind_cad (pen_line_to L
                 ((GenevaDiskAndHoles_TOP_CIRCLE_DIAMETER - DISK_TOLERANCE) / 2) y pen) (\<lambda>pen.
     bind_cad (pen_line L 0 GenevaDiskAndHoles_STEP_HEIGHT pen) (\<lambda>pen.
     bind_cad (pen_y L pen) (\<lambda>y.
     bind_cad (pen_line_to L 0 y pen) (\<lambda>pen.
     bind_cad (pen_close L pen) (\<lambda>shape.
     bind_cad (sketch_origin L sketch) (\<lambda>p0.
     bind_cad (new_Point L sketch 0 1) (\<lambda>p1.
     bind_cad (new_Line L p0 p1) (\<lambda>l.
     bind_cad (new_Axis L l) (\<lambda>axis.
     bind_cad (new_Lathe L shape axis) (\<lambda>lathe.
     add_operation L lathe self))))))))))))))))))))"

definition add_circle_cut :: "library \<Rightarrow> part \<Rightarrow> part cad" where
  "add_circle_cut L self =
     bind_cad (pf L self) (\<lambda>factory.
     bind_cad (xy L self) (\<lambda>base.
     bind_cad (get_parallel_plane L factory base GenevaDiskAndHoles_STEP_HEIGHT) (\<lambda>plane.
     bind_cad (new_Sketch L plane) (\<lambda>cut_sketch.
     bind_cad (new_Point L cut_sketch 0 GenevaDiskAndHoles_CUT_OFFSET) (\<lambda>center.
     bind_cad (new_Circle L center (GenevaDiskAndHoles_CUT_DIAMETER / 2)) (\<lambda>shape.
     bind_cad (new_Extrusion L shape
                 (Height (GenevaDiskAndHoles_STEP_HEIGHT + GenevaDiskAndHoles_LIP_HEIGHT))
                 (Some True)) (\<lambda>cut_extrusion.
     add_operation L cut_extrusion self)))))))"

definition add_turning_pin :: "library \<Rightarrow> part \<Rightarrow> part cad" where
  "add_turning_pin L self =
     bind_cad (pf L self) (\<lambda>factory.
     bind_cad (xy L self) (\<lambda>base.
     bind_cad (get_parallel_plane L factory base (2 * GenevaDiskAndHoles_STEP_HEIGHT))
       (\<lambda>plane.
     bind_cad (new_Sketch L plane) (\<lambda>sketch.
     bind_cad (new_Point L sketch (0.8 * (GenevaDiskAndHoles_TOP_CIRCLE_DIAMETER / 2)) 0)
       (\<lambda>pin_center.
     bind_cad (new_Circle L pin_center (PIN_DIAMETER / 2)) (\<lambda>pin_circle.
     bind_cad (new_Extrusion L pin_circle (StartEnd 0 PIN_HEIGHT) (Some False)) (\<lambda>pin.
     add_operation L pin self)))))))"

definition add_sliding_pin :: "library \<Rightarrow> part \<Rightarrow> part cad" where
  "add_sliding_pin L self =
     bind_cad (pf L self) (\<lambda>factory.
     bind_cad (xy L self) (\<lambda>base.
     bind_cad (get_parallel_plane L factory base GenevaDiskAndHoles_STEP_HEIGHT) (\<lambda>plane.
     bind_cad (new_Sketch L plane) (\<lambda>sketch.
     bind_cad (new_Point L sketch 0 (PIN_DISTANCE / sqrt 2)) (\<lambda>pin_center.
     bind_cad (new_Circle L pin_center (PIN_DIAMETER / 2)) (\<lambda>pin_circle.
     bind_cad (new_Extrusion L pin_circle (StartEnd 0 PIN_HEIGHT) (Some False)) (\<lambda>pin.
     add_operation L pin self)))))))"

definition GenevaDiskAndHoles_init :: "library \<Rightarrow> part \<Rightarrow> part cad" where
  "GenevaDiskAndHoles_init L self =
     bind_cad (super_init_Part L self) (\<lambda>self.
     bind_cad (create_disk L self) (\<lambda>self.
     bind_cad (add_circle_cut L self) (\<lambda>self.
     bind_cad (add_turning_pin L self) (\<lambda>self.
     bind_cad (add_sliding_pin L self) (\<lambda>self.
     paint L ''beige'' self)))))"

definition GenevaDiskAndHoles_new :: "library \<Rightarrow> part cad" where
  "GenevaDiskAndHoles_new L = GenevaDiskAndHoles_init L []"

section \<open>class GenevaDriveCrossSection\<close>

definition add_base_circle :: "library \<Rightarrow> part \<Rightarrow> part cad" where
  "add_base_circle L self =
     bind_cad (xy L self) (\<lambda>plane.
     bind_cad (new_Sketch L plane) (\<lambda>sketch.
     bind_cad (sketch_origin L sketch) (\<lambda>center.
     bind_cad (new_Circle L center (GenevaDriveCrossSection_WIDTH / 2)) (\<lambda>base_circle.
     bind_cad (new_Extrusion L base_circle (Height GenevaDriveCrossSection_CROSS_WIDTH) None)
       (\<lambda>extrusion.
     add_operation L extrusion self)))))"

definition cut_4_circles_points :: "(real \<times> real) list" where
  "cut_4_circles_points =
     [(0, GenevaDriveCrossSection_CUT_OFFSET),
      (0, - GenevaDriveCrossSection_CUT_OFFSET),
      (GenevaDriveCrossSection_CUT_OFFSET, 0),
      (- GenevaDriveCrossSection_CUT_OFFSET, 0)]"

definition cut_4_circles :: "library \<Rightarrow> part \<Rightarrow> part cad" where
  "cut_4_circles L self =
     bind_cad (xy L self) (\<lambda>plane.
     bind_cad (new_Sketch L plane) (\<lambda>sketch.
     cad_foreach cut_4_circles_points (\<lambda>p self.
       bind_cad (new_Point L sketch (fst p) (snd p)) (\<lambda>center.
       bind_cad (new_Circle L center GenevaDriveCrossSection_CUT_RADIUS) (\<lambda>circle.
       bind_cad (new_Extrusion L circle (Height GenevaDriveCrossSection_CROSS_WIDTH) (Some True))
         (\<lambda>cut_extrusion.
       add_operation L cut_extrusion self)))) self))"

text \<open>
  The body of the loop of \<^verbatim>\<open>cut_pin_slot\<close> first computes, from the loop index alone, the
  four corners of the slot (the local \<^verbatim>\<open>points\<close>); \<open>slot_points\<close> is that computation.
  The lines are then made from consecutive corners, \<^verbatim>\<open>zip(points, points[1:])\<close>.
\<close>

definition slot_orientation :: "int \<Rightarrow> real" where
  "slot_orientation i = of_int i * pi / 2 + pi / 4"

definition slot_points :: "int \<Rightarrow> (real \<times> real) list" where
  "slot_points i =
     (let orientation = slot_orientation i;
          px = cos orientation * GenevaDriveCrossSection_CENTER_SLOT_OFFSET;
          py = sin orientation * GenevaDriveCrossSection_CENTER_SLOT_OFFSET;
          dx_len = cos orientation * GenevaDriveCrossSection_SLOT_LENGTH / 2;
          dy_len = sin orientation * GenevaDriveCrossSection_SLOT_LENGTH / 2;
          dx_width = sin orientation * GenevaDriveCrossSection_SLOT_WIDTH / 2;
          dy_width = (- cos orientation) * GenevaDriveCrossSection_SLOT_WIDTH / 2
      in [(px - dx_len + dx_width, py - dy_len + dy_width),
          (px - dx_len - dx_width, py - dy_len - dy_width),
          (px + dx_len - dx_width, py + dy_len - dy_width),
          (px + dx_len + dx_width, py + dy_len + dy_width)])"

definition slot_line ::
  "library \<Rightarrow> sketch \<Rightarrow> (real \<times> real) \<times> (real \<times> real) \<Rightarrow> line cad" where
  "slot_line L sketch pp =
     bind_cad (new_Point L sketch (fst (fst pp)) (snd (fst pp))) (\<lambda>a.
     bind_cad (new_Point L sketch (fst (snd pp)) (snd (snd pp))) (\<lambda>b.
     new_Line L a b))"

definition cut_pin_slot :: "library \<Rightarrow> part \<Rightarrow> part cad" where
  "cut_pin_slot L self =
     bind_cad (xy L self) (\<lambda>plane.
     bind_cad (new_Sketch L plane) (\<lambda>sketch.
     cad_foreach (py_range 4) (\<lambda>i self.
       bind_cad (cad_map (slot_line L sketch) (zip (slot_points i) (drop 1 (slot_points i))))
         (\<lambda>lines.
       bind_cad (new_Polygon L lines) (\<lambda>slot_shape.
       bind_cad (new_Extrusion L slot_shape (Height GenevaDriveCrossSection_CROSS_WIDTH)
                   (Some True)) (\<lambda>slot_extrusion.
       add_operation L slot_extrusion self)))) self))"

definition cut_bearing_hole :: "library \<Rightarrow> part \<Rightarrow> part cad" where
  "cut_bearing_hole L self =
     bind_cad (xy L self) (\<lambda>plane.
     bind_cad (new_Sketch L plane) (\<lambda>sketch.
     bind_cad (sketch_origin L sketch) (\<lambda>center.
     bind_cad (new_Circle L center (BEARING_DIAMETER / 2)) (\<lambda>bearing_hole.
     bind_cad (new_Extrusion L bearing_hole
                 (Height (GenevaDriveCrossSection_CROSS_WIDTH - 1)) (Some True))
       (\<lambda>bearing_extrusion.
     add_operation L bearing_extrusion self)))))"

text \<open>The initialiser does not call the base class's initialiser.\<close>

definition GenevaDriveCrossSection_init :: "library \<Rightarrow> part \<Rightarrow> part cad" where
  "GenevaDriveCrossSection_init L self =
     bind_cad (add_base_circle L self) (\<lambda>self.
     bind_cad (cut_4_circles L self) (\<lambda>self.
     bind_cad (cut_pin_slot L self) (\<lambda>self.
     bind_cad (cut_bearing_hole L self) (\<lambda>self.
     paint L ''brown'' self))))"

definition GenevaDriveCrossSection_new :: "library \<Rightarrow> part cad" where
  "GenevaDriveCrossSection_new L = GenevaDriveCrossSection_init L []"

section \<open>class GenevaDrive\<close>

definition add_plate_with_bearings :: "library \<Rightarrow> assembly \<Rightarrow> assembly cad" where
  "add_plate_with_bearings L self =
     bind_cad (PlateWithBearingsAssembly_new L) (\<lambda>plate.
     add_component L (AssemblyComponent plate) None self)"

definition add_geneva_disk_and_holes :: "library \<Rightarrow> assembly \<Rightarrow> assembly cad" where
  "add_geneva_disk_and_holes L self =
     bind_cad (GenevaDiskAndHoles_new L) (\<lambda>disk.
     bind_cad (new_TFHelper L) (\<lambda>disk_tf.
     bind_cad (translate_z L CIRCLES_PART_HEIGHT disk_tf) (\<lambda>disk_tf.
     bind_cad (translate_x L (- PIN_DISTANCE / 2) disk_tf) (\<lambda>disk_tf.
     bind_cad (get_tf L disk_tf) (\<lambda>t.
     add_component L (PartComponent disk) (Some t) self)))))"

definition add_geneva_drive_cross_section :: "library \<Rightarrow> assembly \<Rightarrow> assembly cad" where
  "add_geneva_drive_cross_section L self =
     bind_cad (GenevaDriveCrossSection_new L) (\<lambda>cross_section.
     bind_cad (new_TFHelper L) (\<lambda>cross_section_tf.
     bind_cad (translate_z L CROSS_PART_HEIGHT cross_section_tf) (\<lambda>cross_section_tf.
     bind_cad (translate_x L (PIN_DISTANCE / 2) cross_section_tf) (\<lambda>cross_section_tf.
     bind_cad (get_tf L cross_section_tf) (\<lambda>t.
     add_component L (PartComponent cross_section) (Some t) self)))))"

definition GenevaDrive_init :: "library \<Rightarrow> assembly \<Rightarrow> assembly cad" where
  "GenevaDrive_init L self =
     bind_cad (super_init_Assembly L self) (\<lambda>self.
     bind_cad (add_plate_with_bearings L self) (\<lambda>self.
     bind_cad (add_geneva_disk_and_holes L self) (\<lambda>self.
     add_geneva_drive_cross_section L self)))"

definition GenevaDrive_new :: "library \<Rightarrow> assembly cad" where
  "GenevaDrive_new L = GenevaDrive_init L []"

text \<open>The script's entry point: \<^verbatim>\<open>show(GenevaDrive())\<close>.\<close>

definition main :: "library \<Rightarrow> unit cad" where
  "main L = bind_cad (GenevaDrive_new L) (\<lambda>drive. show_cad L drive)"

section \<open>What a run does\<close>

text \<open>
  \<open>scripted L m v cs\<close>: from every log, the computation \<open>m\<close> either returns \<open>v\<close> after
  making exactly the calls \<open>cs\<close>, in this order, or it ends with the error of a call of
  \<open>cs\<close> on which the library raised, all calls before it having been made.
  \<open>performs L m v\<close> forgets the calls.
\<close>

definition scripted :: "library \<Rightarrow> 'a cad \<Rightarrow> 'a \<Rightarrow> cad_call list \<Rightarrow> bool" where
  "scripted L m v cs =
     (\<forall>s. m s = Inr (v, s @ cs) \<or>
          (\<exists>pre c post. cs = pre @ c # post \<and> raises L (s @ pre) c \<and>
             m s = Inl (LibraryError c)))"

definition performs :: "library \<Rightarrow> 'a cad \<Rightarrow> 'a \<Rightarrow> bool" where
  "performs L m v = (\<exists>cs. scripted L m v cs)"

text \<open>
  Readers of a finished part: the circles and the polygons it extrudes, in the order of
  the \<^verbatim>\<open>add_operation\<close> calls, each with the arguments of its \<^verbatim>\<open>Extrusion\<close>.
\<close>

fun circle_extrusion_of :: "part_call \<Rightarrow> (point \<times> real \<times> extent \<times> bool option) list" where
  "circle_extrusion_of (AddOperation (Extrusion (Circle c r) e ct)) = [(c, r, e, ct)]"
| "circle_extrusion_of _ = []"

definition circle_extrusions :: "part \<Rightarrow> (point \<times> real \<times> extent \<times> bool option) list" where
  "circle_extrusions p = concat (map circle_extrusion_of p)"




text \<open>
  Two libraries to run the program against. The first never raises and answers
  \<^verbatim>\<open>pen.y\<close> as a pencil that starts at the origin, moves to the given point on \<^verbatim>\<open>line_to\<close>
  and by the given offsets on \<^verbatim>\<open>line\<close>. The second raises on every \<^verbatim>\<open>Lathe\<close>.
\<close>

fun pen_move :: "pen_call \<Rightarrow> real \<times> real \<Rightarrow> real \<times> real" where
  "pen_move (LineTo x y) p = (x, y)"
| "pen_move (LineBy dx dy) p = (fst p + dx, snd p + dy)"

fun pen_position :: "pencil \<Rightarrow> real \<times> real" where
  "pen_position (Pencil sk cs) = fold pen_move cs (0, 0)"

definition reference_library :: library where
  "reference_library = \<lparr>raises = (\<lambda>log c. False), pencil_y = (\<lambda>p. snd (pen_position p))\<rparr>"


text \<open>
  The names the module imports from \<^verbatim>\<open>foundation\<close> (lines 3 to 17 of the source), and the
  primitives the specification's section on external interfaces names, the transform
  helper being \<^verbatim>\<open>TFHelper\<close>.
\<close>

definition foundation_imports :: "string list" where
  "foundation_imports =
     [''show'', ''Sketch'', ''Part'', ''Assembly'', ''Extrusion'', ''Circle'', ''Point'',
      ''Line'', ''Polygon'', ''Lathe'', ''RoundedCornerRectangle'', ''TFHelper'', ''Axis'']"

definition spec_interface_primitives :: "string list" where
  "spec_interface_primitives =
     [''Sketch'', ''Point'', ''Line'', ''Circle'', ''Polygon'', ''Extrusion'', ''Lathe'',
      ''Axis'', ''Part'', ''Assembly'', ''TFHelper'', ''show'']"

section \<open>Composition rules\<close>

lemma scripted_return: "scripted L (return_cad v) v []"
  by (simp add: scripted_def return_cad_def)

lemma scripted_call: "scripted L (call L c v) v [c]"
  unfolding scripted_def call_def
  by (metis append_Nil append_Nil2)

lemma scripted_bind:
  assumes m: "scripted L m v cs" and f: "scripted L (f v) w ds"
  shows "scripted L (bind_cad m f) w (cs @ ds)"
  unfolding scripted_def
proof
  fix s
  from m have "m s = Inr (v, s @ cs) \<or>
     (\<exists>pre c post. cs = pre @ c # post \<and> raises L (s @ pre) c \<and> m s = Inl (LibraryError c))"
    unfolding scripted_def by blast
  then show "bind_cad m f s = Inr (w, s @ cs @ ds) \<or>
     (\<exists>pre c post. cs @ ds = pre @ c # post \<and> raises L (s @ pre) c \<and>
        bind_cad m f s = Inl (LibraryError c))"
  proof
    assume ok: "m s = Inr (v, s @ cs)"
    from f have "f v (s @ cs) = Inr (w, (s @ cs) @ ds) \<or>
       (\<exists>pre c post. ds = pre @ c # post \<and> raises L ((s @ cs) @ pre) c \<and>
          f v (s @ cs) = Inl (LibraryError c))"
      unfolding scripted_def by blast
    then show ?thesis
    proof
      assume "f v (s @ cs) = Inr (w, (s @ cs) @ ds)"
      with ok show ?thesis by (simp add: bind_cad_def)
    next
      assume "\<exists>pre c post. ds = pre @ c # post \<and> raises L ((s @ cs) @ pre) c \<and>
          f v (s @ cs) = Inl (LibraryError c)"
      then obtain pre c post where d: "ds = pre @ c # post"
        and r: "raises L ((s @ cs) @ pre) c" and e: "f v (s @ cs) = Inl (LibraryError c)"
        by blast
      have "cs @ ds = (cs @ pre) @ c # post" using d by simp
      moreover have "raises L (s @ (cs @ pre)) c" using r by simp
      moreover have "bind_cad m f s = Inl (LibraryError c)" using ok e by (simp add: bind_cad_def)
      ultimately show ?thesis by blast
    qed
  next
    assume "\<exists>pre c post. cs = pre @ c # post \<and> raises L (s @ pre) c \<and> m s = Inl (LibraryError c)"
    then obtain pre c post where d: "cs = pre @ c # post"
      and r: "raises L (s @ pre) c" and e: "m s = Inl (LibraryError c)"
      by blast
    have "cs @ ds = pre @ c # (post @ ds)" using d by simp
    moreover have "bind_cad m f s = Inl (LibraryError c)" using e by (simp add: bind_cad_def)
    ultimately show ?thesis using r by blast
  qed
qed

lemma performs_return: "performs L (return_cad v) v"
  unfolding performs_def by (rule exI, rule scripted_return)

lemma performs_call: "performs L (call L c v) v"
  unfolding performs_def by (rule exI, rule scripted_call)

lemma performs_bind: "performs L m v \<Longrightarrow> performs L (f v) w \<Longrightarrow> performs L (bind_cad m f) w"
  unfolding performs_def by (blast intro: scripted_bind)

lemma performs_eq: "performs L m v \<Longrightarrow> v = w \<Longrightarrow> performs L m w"
  by simp

lemma performs_foreach:
  assumes "\<And>x acc. performs L (body x acc) (acc @ g x)"
  shows "performs L (cad_foreach xs body acc) (acc @ concat (map g xs))"
proof (induction xs arbitrary: acc)
  case Nil
  show ?case by (simp add: performs_return)
next
  case (Cons x xs)
  have "performs L (bind_cad (body x acc) (cad_foreach xs body)) ((acc @ g x) @ concat (map g xs))"
    by (rule performs_bind [OF assms Cons.IH])
  then show ?case by simp
qed

lemma performs_map:
  assumes "\<And>x. performs L (f x) (g x)"
  shows "performs L (cad_map f xs) (map g xs)"
proof (induction xs)
  case Nil
  show ?case by (simp add: performs_return)
next
  case (Cons x xs)
  show ?case
    unfolding cad_map.simps list.map
    by (rule performs_bind assms Cons.IH performs_return)+
qed

lemmas entry_defs =
  super_init_Part_def super_init_Assembly_def xy_def yz_def pf_def get_parallel_plane_def
  new_Sketch_def sketch_origin_def sketch_pencil_def new_Point_def new_Circle_def
  from_center_and_sides_def new_Line_def new_Polygon_def new_Axis_def new_Lathe_def
  new_Extrusion_def pen_line_to_def pen_line_def pen_y_def pen_close_def add_operation_def
  paint_def new_TFHelper_def translate_x_def translate_z_def get_tf_def add_component_def
  show_cad_def


lemma performs_returns:
  assumes "performs L m v" and "total L"
  shows "\<exists>cs. \<forall>s. m s = Inr (v, s @ cs)"
proof -
  from assms(1) obtain cs where "scripted L m v cs"
    unfolding performs_def by blast
  with assms(2) have "\<forall>s. m s = Inr (v, s @ cs)"
    unfolding scripted_def total_def by blast
  then show ?thesis by blast
qed

lemma performs_Inr:
  assumes "performs L m v" and "total L"
  shows "\<exists>s'. m s = Inr (v, s')"
  using performs_returns [OF assms] by blast


lemma total_reference_library: "total reference_library"
  by (simp add: total_def reference_library_def)

section \<open>What each method performs\<close>

subsection \<open>BallBearing626D\<close>

lemma create_outer_cylinder_performs:
  "performs L (create_outer_cylinder L self)
     (self @ [AddOperation (Extrusion
        (Circle (origin (Sketch xy_plane)) (BallBearing626D_OUTER_DIAMETER / 2))
        (Height BallBearing626D_HEIGHT) None)])"
  unfolding create_outer_cylinder_def entry_defs
  by (rule performs_bind performs_call)+

lemma create_inner_hole_performs:
  "performs L (create_inner_hole L self)
     (self @ [AddOperation (Extrusion
        (Circle (origin (Sketch xy_plane)) (BallBearing626D_INNER_DIAMETER / 2))
        (Height BallBearing626D_HEIGHT) (Some True))])"
  unfolding create_inner_hole_def entry_defs
  by (rule performs_bind performs_call)+

lemma BallBearing626D_new_performs:
  "performs L (BallBearing626D_new L)
     [AddOperation (Extrusion
        (Circle (origin (Sketch xy_plane)) (BallBearing626D_OUTER_DIAMETER / 2))
        (Height BallBearing626D_HEIGHT) None),
      AddOperation (Extrusion
        (Circle (origin (Sketch xy_plane)) (BallBearing626D_INNER_DIAMETER / 2))
        (Height BallBearing626D_HEIGHT) (Some True)),
      Paint ''grey'']"
  unfolding BallBearing626D_new_def BallBearing626D_init_def paint_def
  apply (rule performs_eq)
   apply ((rule performs_bind performs_call create_outer_cylinder_performs
            create_inner_hole_performs)+) [1]
  apply simp
  done

subsection \<open>RoundedRectangularPlateWithPins\<close>

lemma create_plate_performs:
  "performs L (create_plate L self)
     (self @ [AddOperation (Extrusion
        (RoundedCornerRectangle (origin (Sketch xy_plane))
           RoundedRectangularPlateWithPins_LENGTH
           RoundedRectangularPlateWithPins_WIDTH
           RoundedRectangularPlateWithPins_FILLET_RADIUS)
        (Height RoundedRectangularPlateWithPins_PLATE_THICKNESS) None)])"
  unfolding create_plate_def entry_defs
  by (rule performs_bind performs_call)+

lemma create_pins_performs:
  "performs L (create_pins L self)
     (self @ [
        AddOperation (Extrusion
          (Circle (Point (Sketch xy_plane) (- RoundedRectangularPlateWithPins_PIN_DISTANCE / 2) 0)
                  (RoundedRectangularPlateWithPins_LIP_DIAMETER / 2))
          (StartEnd RoundedRectangularPlateWithPins_PLATE_THICKNESS CIRCLES_PART_HEIGHT)
          (Some False)),
        AddOperation (Extrusion
          (Circle (Point (Sketch xy_plane) (- RoundedRectangularPlateWithPins_PIN_DISTANCE / 2) 0)
                  (RoundedRectangularPlateWithPins_PIN_DIAMETER / 2))
          (StartEnd (CIRCLES_PART_HEIGHT - BEARING_PLATE_OFFSET)
                    (CIRCLES_PART_HEIGHT + BEARING_HEIGHT - BEARING_PLATE_OFFSET))
          (Some False)),
        AddOperation (Extrusion
          (Circle (Point (Sketch xy_plane) (RoundedRectangularPlateWithPins_PIN_DISTANCE / 2) 0)
                  (RoundedRectangularPlateWithPins_LIP_DIAMETER / 2))
          (StartEnd RoundedRectangularPlateWithPins_PLATE_THICKNESS CROSS_PART_HEIGHT)
          (Some False)),
        AddOperation (Extrusion
          (Circle (Point (Sketch xy_plane) (RoundedRectangularPlateWithPins_PIN_DISTANCE / 2) 0)
                  (RoundedRectangularPlateWithPins_PIN_DIAMETER / 2))
          (StartEnd (CROSS_PART_HEIGHT - BEARING_PLATE_OFFSET)
                    (CROSS_PART_HEIGHT + BEARING_HEIGHT - BEARING_PLATE_OFFSET))
          (Some False))])"
  unfolding create_pins_def entry_defs
  apply (rule performs_eq)
   apply ((rule performs_bind performs_call)+) [1]
  apply simp
  done



lemma RoundedRectangularPlateWithPins_new_performs:
  "performs L (RoundedRectangularPlateWithPins_new L)
     ([PartInit,
      AddOperation (Extrusion
        (RoundedCornerRectangle (origin (Sketch xy_plane))
           RoundedRectangularPlateWithPins_LENGTH
           RoundedRectangularPlateWithPins_WIDTH
           RoundedRectangularPlateWithPins_FILLET_RADIUS)
        (Height RoundedRectangularPlateWithPins_PLATE_THICKNESS) None),
      AddOperation (Extrusion
          (Circle (Point (Sketch xy_plane) (- RoundedRectangularPlateWithPins_PIN_DISTANCE / 2) 0)
                  (RoundedRectangularPlateWithPins_LIP_DIAMETER / 2))
          (StartEnd RoundedRectangularPlateWithPins_PLATE_THICKNESS CIRCLES_PART_HEIGHT)
          (Some False)),
        AddOperation (Extrusion
          (Circle (Point (Sketch xy_plane) (- RoundedRectangularPlateWithPins_PIN_DISTANCE / 2) 0)
                  (RoundedRectangularPlateWithPins_PIN_DIAMETER / 2))
          (StartEnd (CIRCLES_PART_HEIGHT - BEARING_PLATE_OFFSET)
                    (CIRCLES_PART_HEIGHT + BEARING_HEIGHT - BEARING_PLATE_OFFSET))
          (Some False)),
        AddOperation (Extrusion
          (Circle (Point (Sketch xy_plane) (RoundedRectangularPlateWithPins_PIN_DISTANCE / 2) 0)
                  (RoundedRectangularPlateWithPins_LIP_DIAMETER / 2))
          (StartEnd RoundedRectangularPlateWithPins_PLATE_THICKNESS CROSS_PART_HEIGHT)
          (Some False)),
        AddOperation (Extrusion
          (Circle (Point (Sketch xy_plane) (RoundedRectangularPlateWithPins_PIN_DISTANCE / 2) 0)
                  (RoundedRectangularPlateWithPins_PIN_DIAMETER / 2))
          (StartEnd (CROSS_PART_HEIGHT - BEARING_PLATE_OFFSET)
                    (CROSS_PART_HEIGHT + BEARING_HEIGHT - BEARING_PLATE_OFFSET))
          (Some False)),
      Paint ''plywood''])"
  unfolding RoundedRectangularPlateWithPins_new_def RoundedRectangularPlateWithPins_init_def
    paint_def super_init_Part_def
  apply (rule performs_eq)
   apply ((rule performs_bind performs_call create_plate_performs create_pins_performs)+) [1]
  apply simp
  done


subsection \<open>PlateWithBearingsAssembly\<close>

lemma PlateWithBearingsAssembly_new_performs:
  assumes "performs L (RoundedRectangularPlateWithPins_new L) plate"
    and "performs L (BallBearing626D_new L) bearing"
  shows "performs L (PlateWithBearingsAssembly_new L)
     [AssemblyInit,
      SetLipHeight RoundedRectangularPlateWithPins_LIP_HEIGHT,
      AddComponent (PartComponent plate) None,
      AddComponent (PartComponent bearing)
        (Some [TranslateX (- PIN_DISTANCE / 2),
               TranslateZ (CIRCLES_PART_HEIGHT - BEARING_PLATE_OFFSET)]),
      AddComponent (PartComponent bearing)
        (Some [TranslateX (PIN_DISTANCE / 2),
               TranslateZ (CROSS_PART_HEIGHT - BEARING_PLATE_OFFSET)])]"
  unfolding PlateWithBearingsAssembly_new_def PlateWithBearingsAssembly_init_def
    create_plate_with_bearings_def entry_defs
  apply (rule performs_eq)
   apply ((rule performs_bind performs_call performs_return assms)+) [1]
  apply simp
  done

subsection \<open>GenevaDiskAndHoles\<close>

lemma create_disk_performs:
  "\<exists>y1 y2 y3. performs L (create_disk L self)
     (self @ [AddOperation (Lathe
        (ClosedPath (Pencil (Sketch yz_plane)
           [LineTo 0 (BEARING_HEIGHT - BEARING_PLATE_OFFSET),
            LineBy (BEARING_DIAMETER / 2) 0,
            LineBy 0 (- BEARING_HEIGHT + BEARING_PLATE_OFFSET),
            LineTo (GenevaDiskAndHoles_DISK_DIAMETER / 2) y1,
            LineBy 0 GenevaDiskAndHoles_STEP_HEIGHT,
            LineTo ((GenevaDiskAndHoles_TOP_CIRCLE_DIAMETER - DISK_TOLERANCE) / 2) y2,
            LineBy 0 GenevaDiskAndHoles_STEP_HEIGHT,
            LineTo 0 y3]))
        (Axis (Line (origin (Sketch yz_plane)) (Point (Sketch yz_plane) 0 1))))])"
proof -
  define p1 where "p1 =
     [LineTo 0 (BEARING_HEIGHT - BEARING_PLATE_OFFSET),
      LineBy (BEARING_DIAMETER / 2) 0,
      LineBy 0 (- BEARING_HEIGHT + BEARING_PLATE_OFFSET)]"
  define y1 where "y1 = pencil_y L (Pencil (Sketch yz_plane) p1)"
  define p2 where "p2 =
     p1 @ [LineTo (GenevaDiskAndHoles_DISK_DIAMETER / 2) y1,
           LineBy 0 GenevaDiskAndHoles_STEP_HEIGHT]"
  define y2 where "y2 = pencil_y L (Pencil (Sketch yz_plane) p2)"
  define p3 where "p3 =
     p2 @ [LineTo ((GenevaDiskAndHoles_TOP_CIRCLE_DIAMETER - DISK_TOLERANCE) / 2) y2,
           LineBy 0 GenevaDiskAndHoles_STEP_HEIGHT]"
  define y3 where "y3 = pencil_y L (Pencil (Sketch yz_plane) p3)"
  have "performs L (create_disk L self)
     (self @ [AddOperation (Lathe
        (ClosedPath (Pencil (Sketch yz_plane) (p3 @ [LineTo 0 y3])))
        (Axis (Line (origin (Sketch yz_plane)) (Point (Sketch yz_plane) 0 1))))])"
    unfolding create_disk_def entry_defs
    apply (rule performs_eq)
     apply ((rule performs_bind performs_call)+) [1]
    apply (simp add: p1_def p2_def p3_def y1_def y2_def y3_def)
    done
  then show ?thesis
    unfolding p3_def p2_def p1_def by auto
qed

lemma add_sliding_pin_performs:
  "performs L (add_sliding_pin L self)
     (self @ [AddOperation (Extrusion
        (Circle (Point (Sketch (parallel_plane xy_plane GenevaDiskAndHoles_STEP_HEIGHT))
                   0 (PIN_DISTANCE / sqrt 2))
                (PIN_DIAMETER / 2))
        (StartEnd 0 PIN_HEIGHT) (Some False))])"
  unfolding add_sliding_pin_def entry_defs
  by (rule performs_bind performs_call)+

lemma GenevaDiskAndHoles_new_performs:
  "\<exists>disk. performs L (GenevaDiskAndHoles_new L) disk"
  unfolding GenevaDiskAndHoles_new_def GenevaDiskAndHoles_init_def create_disk_def
    add_circle_cut_def add_turning_pin_def entry_defs
  by (rule exI, (rule performs_bind performs_call add_sliding_pin_performs)+)

subsection \<open>GenevaDriveCrossSection\<close>

lemma py_range_4: "py_range 4 = [0, 1, 2, 3]"
  by (simp add: py_range_def upt_rec)

lemma slot_line_performs:
  "performs L (slot_line L sk pp)
     (Line (Point sk (fst (fst pp)) (snd (fst pp))) (Point sk (fst (snd pp)) (snd (snd pp))))"
  unfolding slot_line_def entry_defs
  by (rule performs_bind performs_call)+

lemma add_base_circle_performs:
  "performs L (add_base_circle L self)
     (self @ [AddOperation (Extrusion
        (Circle (origin (Sketch xy_plane)) (GenevaDriveCrossSection_WIDTH / 2))
        (Height GenevaDriveCrossSection_CROSS_WIDTH) None)])"
  unfolding add_base_circle_def entry_defs
  by (rule performs_bind performs_call)+

lemma cut_4_circles_performs:
  "performs L (cut_4_circles L self)
     (self @ map (\<lambda>p. AddOperation (Extrusion
        (Circle (Point (Sketch xy_plane) (fst p) (snd p)) GenevaDriveCrossSection_CUT_RADIUS)
        (Height GenevaDriveCrossSection_CROSS_WIDTH) (Some True))) cut_4_circles_points)"
  unfolding cut_4_circles_def entry_defs
  apply (rule performs_eq)
   apply ((rule performs_bind performs_call performs_foreach)+) [1]
  apply (simp add: cut_4_circles_points_def)
  done

lemma cut_pin_slot_performs:
  "performs L (cut_pin_slot L self)
     (self @ map (\<lambda>i. AddOperation (Extrusion
        (Polygon (map (\<lambda>pp. Line (Point (Sketch xy_plane) (fst (fst pp)) (snd (fst pp)))
                                 (Point (Sketch xy_plane) (fst (snd pp)) (snd (snd pp))))
                      (zip (slot_points i) (drop 1 (slot_points i)))))
        (Height GenevaDriveCrossSection_CROSS_WIDTH) (Some True))) [0, 1, 2, 3])"
  unfolding cut_pin_slot_def new_Polygon_def new_Extrusion_def add_operation_def xy_def
    new_Sketch_def
  apply (rule performs_eq)
   apply ((rule performs_bind performs_call performs_foreach performs_map
             slot_line_performs)+) [1]
  apply (simp add: py_range_4)
  done

lemma cut_bearing_hole_performs:
  "performs L (cut_bearing_hole L self)
     (self @ [AddOperation (Extrusion
        (Circle (origin (Sketch xy_plane)) (BEARING_DIAMETER / 2))
        (Height (GenevaDriveCrossSection_CROSS_WIDTH - 1)) (Some True))])"
  unfolding cut_bearing_hole_def entry_defs
  by (rule performs_bind performs_call)+

lemma GenevaDriveCrossSection_new_performs:
  "performs L (GenevaDriveCrossSection_new L)
     ([AddOperation (Extrusion
        (Circle (origin (Sketch xy_plane)) (GenevaDriveCrossSection_WIDTH / 2))
        (Height GenevaDriveCrossSection_CROSS_WIDTH) None)]
      @ map (\<lambda>p. AddOperation (Extrusion
        (Circle (Point (Sketch xy_plane) (fst p) (snd p)) GenevaDriveCrossSection_CUT_RADIUS)
        (Height GenevaDriveCrossSection_CROSS_WIDTH) (Some True))) cut_4_circles_points
      @ map (\<lambda>i. AddOperation (Extrusion
        (Polygon (map (\<lambda>pp. Line (Point (Sketch xy_plane) (fst (fst pp)) (snd (fst pp)))
                                 (Point (Sketch xy_plane) (fst (snd pp)) (snd (snd pp))))
                      (zip (slot_points i) (drop 1 (slot_points i)))))
        (Height GenevaDriveCrossSection_CROSS_WIDTH) (Some True))) [0, 1, 2, 3]
      @ [AddOperation (Extrusion
        (Circle (origin (Sketch xy_plane)) (BEARING_DIAMETER / 2))
        (Height (GenevaDriveCrossSection_CROSS_WIDTH - 1)) (Some True)),
         Paint ''brown''])"
  unfolding GenevaDriveCrossSection_new_def GenevaDriveCrossSection_init_def paint_def
  apply (rule performs_eq)
   apply ((rule performs_bind performs_call add_base_circle_performs cut_4_circles_performs
             cut_pin_slot_performs cut_bearing_hole_performs)+) [1]
  apply simp
  done

subsection \<open>GenevaDrive\<close>

lemma GenevaDrive_new_performs:
  assumes "performs L (PlateWithBearingsAssembly_new L) plate"
    and "performs L (GenevaDiskAndHoles_new L) disk"
    and "performs L (GenevaDriveCrossSection_new L) cross_section"
  shows "performs L (GenevaDrive_new L)
     [AssemblyInit,
      AddComponent (AssemblyComponent plate) None,
      AddComponent (PartComponent disk)
        (Some [TranslateZ CIRCLES_PART_HEIGHT, TranslateX (- PIN_DISTANCE / 2)]),
      AddComponent (PartComponent cross_section)
        (Some [TranslateZ CROSS_PART_HEIGHT, TranslateX (PIN_DISTANCE / 2)])]"
  unfolding GenevaDrive_new_def GenevaDrive_init_def add_plate_with_bearings_def
    add_geneva_disk_and_holes_def add_geneva_drive_cross_section_def entry_defs
  apply (rule performs_eq)
   apply ((rule performs_bind performs_call assms)+) [1]
  apply simp
  done



lemma plate_summary:
  "\<exists>plate. performs L (RoundedRectangularPlateWithPins_new L) plate \<and>
     circle_extrusions plate =
       [(Point (Sketch xy_plane) (- RoundedRectangularPlateWithPins_PIN_DISTANCE / 2) 0,
         RoundedRectangularPlateWithPins_LIP_DIAMETER / 2,
         StartEnd RoundedRectangularPlateWithPins_PLATE_THICKNESS CIRCLES_PART_HEIGHT,
         Some False),
        (Point (Sketch xy_plane) (- RoundedRectangularPlateWithPins_PIN_DISTANCE / 2) 0,
         RoundedRectangularPlateWithPins_PIN_DIAMETER / 2,
         StartEnd (CIRCLES_PART_HEIGHT - BEARING_PLATE_OFFSET)
                  (CIRCLES_PART_HEIGHT + BEARING_HEIGHT - BEARING_PLATE_OFFSET),
         Some False),
        (Point (Sketch xy_plane) (RoundedRectangularPlateWithPins_PIN_DISTANCE / 2) 0,
         RoundedRectangularPlateWithPins_LIP_DIAMETER / 2,
         StartEnd RoundedRectangularPlateWithPins_PLATE_THICKNESS CROSS_PART_HEIGHT,
         Some False),
        (Point (Sketch xy_plane) (RoundedRectangularPlateWithPins_PIN_DISTANCE / 2) 0,
         RoundedRectangularPlateWithPins_PIN_DIAMETER / 2,
         StartEnd (CROSS_PART_HEIGHT - BEARING_PLATE_OFFSET)
                  (CROSS_PART_HEIGHT + BEARING_HEIGHT - BEARING_PLATE_OFFSET),
         Some False)]"
  by (rule exI, rule conjI, rule RoundedRectangularPlateWithPins_new_performs)
     (simp add: circle_extrusions_def)

lemma bearing_summary:
  "\<exists>bearing. performs L (BallBearing626D_new L) bearing \<and>
     circle_extrusions bearing =
       [(origin (Sketch xy_plane), BallBearing626D_OUTER_DIAMETER / 2,
         Height BallBearing626D_HEIGHT, None),
        (origin (Sketch xy_plane), BallBearing626D_INNER_DIAMETER / 2,
         Height BallBearing626D_HEIGHT, Some True)]"
  by (rule exI, rule conjI, rule BallBearing626D_new_performs)
     (simp add: circle_extrusions_def)




section \<open>The claims\<close>

text \<open>
  Claim C1. \<^verbatim>\<open>create_pins\<close> places the two pin centres at \<open>(- PIN_DISTANCE / 2, 0)\<close> and
  \<open>(PIN_DISTANCE / 2, 0)\<close> on the XY plane of the plate; the assembly adds the plate without
  a transform and translates the two bearings along x by the same two offsets; the bore of
  a bearing is centred on the origin of the bearing's own XY plane. So in every
  construction against a library that does not raise, the bores are at
  \<open>x = \<plusminus> PIN_DISTANCE / 2\<close>, over the pins.
\<close>

theorem pins_and_bearings_share_x:
  assumes "total L"
  shows "\<exists>plate bearing s'.
     PlateWithBearingsAssembly_new L s =
       Inr ([AssemblyInit,
             SetLipHeight RoundedRectangularPlateWithPins_LIP_HEIGHT,
             AddComponent (PartComponent plate) None,
             AddComponent (PartComponent bearing)
               (Some [TranslateX (- PIN_DISTANCE / 2),
                      TranslateZ (CIRCLES_PART_HEIGHT - BEARING_PLATE_OFFSET)]),
             AddComponent (PartComponent bearing)
               (Some [TranslateX (PIN_DISTANCE / 2),
                      TranslateZ (CROSS_PART_HEIGHT - BEARING_PLATE_OFFSET)])], s') \<and>
     map fst (circle_extrusions plate) =
       [Point (Sketch xy_plane) (- PIN_DISTANCE / 2) 0,
        Point (Sketch xy_plane) (- PIN_DISTANCE / 2) 0,
        Point (Sketch xy_plane) (PIN_DISTANCE / 2) 0,
        Point (Sketch xy_plane) (PIN_DISTANCE / 2) 0] \<and>
     map fst (circle_extrusions bearing) =
       [origin (Sketch xy_plane), origin (Sketch xy_plane)]"
proof -
  obtain plate where p: "performs L (RoundedRectangularPlateWithPins_new L) plate"
    and pc: "map fst (circle_extrusions plate) =
       [Point (Sketch xy_plane) (- PIN_DISTANCE / 2) 0,
        Point (Sketch xy_plane) (- PIN_DISTANCE / 2) 0,
        Point (Sketch xy_plane) (PIN_DISTANCE / 2) 0,
        Point (Sketch xy_plane) (PIN_DISTANCE / 2) 0]"
    using plate_summary [of L]
    by (auto simp: RoundedRectangularPlateWithPins_PIN_DISTANCE_def)
  obtain bearing where b: "performs L (BallBearing626D_new L) bearing"
    and bc: "map fst (circle_extrusions bearing) =
       [origin (Sketch xy_plane), origin (Sketch xy_plane)]"
    using bearing_summary [of L] by auto
  from performs_Inr [OF PlateWithBearingsAssembly_new_performs [OF p b] assms, of s]
  obtain s' where "PlateWithBearingsAssembly_new L s =
       Inr ([AssemblyInit,
             SetLipHeight RoundedRectangularPlateWithPins_LIP_HEIGHT,
             AddComponent (PartComponent plate) None,
             AddComponent (PartComponent bearing)
               (Some [TranslateX (- PIN_DISTANCE / 2),
                      TranslateZ (CIRCLES_PART_HEIGHT - BEARING_PLATE_OFFSET)]),
             AddComponent (PartComponent bearing)
               (Some [TranslateX (PIN_DISTANCE / 2),
                      TranslateZ (CROSS_PART_HEIGHT - BEARING_PLATE_OFFSET)])], s')"
    by blast
  with pc bc show ?thesis by (intro exI conjI)
qed

theorem pins_and_bearings_share_x_witness:
  "total reference_library \<and>
   (\<exists>plate bearing s'.
     PlateWithBearingsAssembly_new reference_library [] =
       Inr ([AssemblyInit,
             SetLipHeight 2,
             AddComponent (PartComponent plate) None,
             AddComponent (PartComponent bearing) (Some [TranslateX (- 25), TranslateZ 4]),
             AddComponent (PartComponent bearing) (Some [TranslateX 25, TranslateZ 6])], s') \<and>
     map fst (circle_extrusions plate) =
       [Point (Sketch xy_plane) (- 25) 0, Point (Sketch xy_plane) (- 25) 0,
        Point (Sketch xy_plane) 25 0, Point (Sketch xy_plane) 25 0] \<and>
     map fst (circle_extrusions bearing) =
       [origin (Sketch xy_plane), origin (Sketch xy_plane)])"
  using pins_and_bearings_share_x [OF total_reference_library, of "[]"]
  by (simp add: total_reference_library PIN_DISTANCE_def BASE_LENGTH_def
      CIRCLES_PART_HEIGHT_def CROSS_PART_HEIGHT_def PLATE_THICKNESS_def LIP_HEIGHT_def
      BEARING_PLATE_OFFSET_def RoundedRectangularPlateWithPins_LIP_HEIGHT_def)



text \<open>
  Claim C3. The derived module-level dimensions are given by the stated formulas, and
  with the stated base measurements \<open>PIN_DISTANCE\<close> is 50, \<open>CIRCLES_PART_HEIGHT\<close> is 7 and
  \<open>CROSS_PART_HEIGHT\<close> is 9.
\<close>

theorem module_dimensions_derived:
  "PIN_DISTANCE = BASE_LENGTH * 0.5 \<and>
   DISK_DIAMETER = 2 * PIN_DISTANCE / sqrt 2 + PIN_DIAMETER \<and>
   SLIDING_CIRCLE_DIAMETER = DISK_DIAMETER * 0.8 \<and>
   CIRCLES_PART_HEIGHT = PLATE_THICKNESS + LIP_HEIGHT + BEARING_PLATE_OFFSET \<and>
   CROSS_PART_HEIGHT = CIRCLES_PART_HEIGHT + PLATE_THICKNESS \<and>
   BASE_LENGTH = 100 \<and> PLATE_THICKNESS = 2 \<and> LIP_HEIGHT = 2 \<and> BEARING_PLATE_OFFSET = 3 \<and>
   PIN_DISTANCE = 50 \<and> CIRCLES_PART_HEIGHT = 7 \<and> CROSS_PART_HEIGHT = 9"
  by (simp add: PIN_DISTANCE_def DISK_DIAMETER_def SLIDING_CIRCLE_DIAMETER_def
      CIRCLES_PART_HEIGHT_def CROSS_PART_HEIGHT_def BASE_LENGTH_def PLATE_THICKNESS_def
      LIP_HEIGHT_def BEARING_PLATE_OFFSET_def)

text \<open>
  Claim C4. A \<^verbatim>\<open>GenevaDrive\<close> is an assembly of exactly three components, added in this
  order: what \<^verbatim>\<open>PlateWithBearingsAssembly()\<close> returns, with no transform; what
  \<^verbatim>\<open>GenevaDiskAndHoles()\<close> returns, translated by \<open>CIRCLES_PART_HEIGHT\<close> along z and by
  \<open>- PIN_DISTANCE / 2\<close> along x; what \<^verbatim>\<open>GenevaDriveCrossSection()\<close> returns, translated by
  \<open>CROSS_PART_HEIGHT\<close> along z and by \<open>PIN_DISTANCE / 2\<close> along x.
\<close>

theorem drive_composes_three_components:
  assumes "total L"
  shows "\<exists>plate disk cross_section s'.
     GenevaDrive_new L s =
       Inr ([AssemblyInit,
             AddComponent (AssemblyComponent plate) None,
             AddComponent (PartComponent disk)
               (Some [TranslateZ CIRCLES_PART_HEIGHT, TranslateX (- PIN_DISTANCE / 2)]),
             AddComponent (PartComponent cross_section)
               (Some [TranslateZ CROSS_PART_HEIGHT, TranslateX (PIN_DISTANCE / 2)])], s') \<and>
     (\<forall>t. \<exists>t'. PlateWithBearingsAssembly_new L t = Inr (plate, t')) \<and>
     (\<forall>t. \<exists>t'. GenevaDiskAndHoles_new L t = Inr (disk, t')) \<and>
     (\<forall>t. \<exists>t'. GenevaDriveCrossSection_new L t = Inr (cross_section, t'))"
proof -
  obtain plate where p: "performs L (PlateWithBearingsAssembly_new L) plate"
    by (blast intro: PlateWithBearingsAssembly_new_performs
        RoundedRectangularPlateWithPins_new_performs BallBearing626D_new_performs)
  obtain disk where d: "performs L (GenevaDiskAndHoles_new L) disk"
    using GenevaDiskAndHoles_new_performs by blast
  obtain cross_section where c: "performs L (GenevaDriveCrossSection_new L) cross_section"
    using GenevaDriveCrossSection_new_performs by blast
  obtain s' where run: "GenevaDrive_new L s =
       Inr ([AssemblyInit,
             AddComponent (AssemblyComponent plate) None,
             AddComponent (PartComponent disk)
               (Some [TranslateZ CIRCLES_PART_HEIGHT, TranslateX (- PIN_DISTANCE / 2)]),
             AddComponent (PartComponent cross_section)
               (Some [TranslateZ CROSS_PART_HEIGHT, TranslateX (PIN_DISTANCE / 2)])], s')"
    using performs_Inr [OF GenevaDrive_new_performs [OF p d c] assms] by blast
  have "\<forall>t. \<exists>t'. PlateWithBearingsAssembly_new L t = Inr (plate, t')"
    and "\<forall>t. \<exists>t'. GenevaDiskAndHoles_new L t = Inr (disk, t')"
    and "\<forall>t. \<exists>t'. GenevaDriveCrossSection_new L t = Inr (cross_section, t')"
    using performs_Inr [OF p assms] performs_Inr [OF d assms] performs_Inr [OF c assms]
    by blast+
  with run show ?thesis by (intro exI conjI)
qed

theorem drive_composes_three_components_witness:
  "total reference_library \<and>
   (\<exists>plate disk cross_section s'.
     GenevaDrive_new reference_library [] =
       Inr ([AssemblyInit,
             AddComponent (AssemblyComponent plate) None,
             AddComponent (PartComponent disk) (Some [TranslateZ 7, TranslateX (- 25)]),
             AddComponent (PartComponent cross_section) (Some [TranslateZ 9, TranslateX 25])],
            s'))"
proof -
  from drive_composes_three_components [OF total_reference_library, of "[]"]
  obtain plate disk cross_section s' where
    "GenevaDrive_new reference_library [] =
       Inr ([AssemblyInit,
             AddComponent (AssemblyComponent plate) None,
             AddComponent (PartComponent disk)
               (Some [TranslateZ CIRCLES_PART_HEIGHT, TranslateX (- PIN_DISTANCE / 2)]),
             AddComponent (PartComponent cross_section)
               (Some [TranslateZ CROSS_PART_HEIGHT, TranslateX (PIN_DISTANCE / 2)])], s')"
    by blast
  then have "GenevaDrive_new reference_library [] =
       Inr ([AssemblyInit,
             AddComponent (AssemblyComponent plate) None,
             AddComponent (PartComponent disk) (Some [TranslateZ 7, TranslateX (- 25)]),
             AddComponent (PartComponent cross_section) (Some [TranslateZ 9, TranslateX 25])],
            s')"
    by (simp add: PIN_DISTANCE_def BASE_LENGTH_def CIRCLES_PART_HEIGHT_def
        CROSS_PART_HEIGHT_def PLATE_THICKNESS_def LIP_HEIGHT_def BEARING_PLATE_OFFSET_def)
  then show ?thesis using total_reference_library by blast
qed

text \<open>
  Claim C5, as stated, fails: the module imports \<^verbatim>\<open>RoundedCornerRectangle\<close> from the
  library, and \<^verbatim>\<open>create_plate\<close> calls its \<^verbatim>\<open>from_center_and_sides\<close>; the name is not among
  the primitives the specification lists.
\<close>

theorem imports_outside_listed_primitives:
  "''RoundedCornerRectangle'' \<in> set foundation_imports \<and>
   ''RoundedCornerRectangle'' \<notin> set spec_interface_primitives \<and>
   \<not> set foundation_imports \<subseteq> set spec_interface_primitives \<and>
   create_plate reference_library [] [] =
     Inr ([AddOperation (Extrusion
            (RoundedCornerRectangle (origin (Sketch xy_plane)) 100 50 5) (Height 2) None)],
          [call_xy, call_Sketch xy_plane, call_origin (Sketch xy_plane),
           call_from_center_and_sides (origin (Sketch xy_plane)) 100 50 5,
           call_Extrusion (RoundedCornerRectangle (origin (Sketch xy_plane)) 100 50 5)
             (Height 2) None,
           call_add_operation (Extrusion
             (RoundedCornerRectangle (origin (Sketch xy_plane)) 100 50 5) (Height 2) None)])"
  by (simp add: foundation_imports_def spec_interface_primitives_def create_plate_def
      entry_defs bind_cad_def call_def reference_library_def
      RoundedRectangularPlateWithPins_LENGTH_def RoundedRectangularPlateWithPins_WIDTH_def
      RoundedRectangularPlateWithPins_FILLET_RADIUS_def
      RoundedRectangularPlateWithPins_PLATE_THICKNESS_def BASE_LENGTH_def BASE_WIDTH_def
      PLATE_THICKNESS_def)

text \<open>
  Claim C5, amended. The names the module imports from the library are exactly the
  primitives the specification lists and \<^verbatim>\<open>RoundedCornerRectangle\<close>.
\<close>

theorem imports_within_amended_list:
  "set foundation_imports = set spec_interface_primitives \<union> {''RoundedCornerRectangle''}"
  by (auto simp add: foundation_imports_def spec_interface_primitives_def)





text \<open>
  Claim C8. The pins of the plate fit the bore of the bearing: the class attribute
  \<open>PIN_DIAMETER\<close> of the plate is 6, as is \<open>INNER_DIAMETER\<close> of the bearing, and these
  are the diameters of the pin circles the plate extrudes (second and fourth circle,
  after the lip of each pin) and of the hole the bearing cuts.
\<close>

theorem pin_diameter_equals_bearing_bore:
  assumes "total L"
  shows "\<exists>plate bearing s1 s2.
     RoundedRectangularPlateWithPins_new L s = Inr (plate, s1) \<and>
     BallBearing626D_new L s = Inr (bearing, s2) \<and>
     map (\<lambda>(c, r, e, ct). 2 * r) (circle_extrusions plate) =
       [RoundedRectangularPlateWithPins_LIP_DIAMETER,
        RoundedRectangularPlateWithPins_PIN_DIAMETER,
        RoundedRectangularPlateWithPins_LIP_DIAMETER,
        RoundedRectangularPlateWithPins_PIN_DIAMETER] \<and>
     map (\<lambda>(c, r, e, ct). (2 * r, ct)) (circle_extrusions bearing) =
       [(BallBearing626D_OUTER_DIAMETER, None), (BallBearing626D_INNER_DIAMETER, Some True)] \<and>
     RoundedRectangularPlateWithPins_PIN_DIAMETER = 6 \<and>
     BallBearing626D_INNER_DIAMETER = BEARING_INNER_DIAMETER \<and>
     BEARING_INNER_DIAMETER = 6 \<and>
     RoundedRectangularPlateWithPins_PIN_DIAMETER = BallBearing626D_INNER_DIAMETER"
proof -
  obtain plate where p: "performs L (RoundedRectangularPlateWithPins_new L) plate"
    and pc: "map (\<lambda>(c, r, e, ct). 2 * r) (circle_extrusions plate) =
       [RoundedRectangularPlateWithPins_LIP_DIAMETER,
        RoundedRectangularPlateWithPins_PIN_DIAMETER,
        RoundedRectangularPlateWithPins_LIP_DIAMETER,
        RoundedRectangularPlateWithPins_PIN_DIAMETER]"
    using plate_summary [of L] by auto
  obtain bearing where b: "performs L (BallBearing626D_new L) bearing"
    and bc: "map (\<lambda>(c, r, e, ct). (2 * r, ct)) (circle_extrusions bearing) =
       [(BallBearing626D_OUTER_DIAMETER, None), (BallBearing626D_INNER_DIAMETER, Some True)]"
    using bearing_summary [of L] by auto
  obtain s1 where s1: "RoundedRectangularPlateWithPins_new L s = Inr (plate, s1)"
    using performs_Inr [OF p assms] by blast
  obtain s2 where s2: "BallBearing626D_new L s = Inr (bearing, s2)"
    using performs_Inr [OF b assms] by blast
  have k: "RoundedRectangularPlateWithPins_PIN_DIAMETER = 6 \<and>
     BallBearing626D_INNER_DIAMETER = BEARING_INNER_DIAMETER \<and>
     BEARING_INNER_DIAMETER = 6 \<and>
     RoundedRectangularPlateWithPins_PIN_DIAMETER = BallBearing626D_INNER_DIAMETER"
    by (simp add: RoundedRectangularPlateWithPins_PIN_DIAMETER_def
        BallBearing626D_INNER_DIAMETER_def BEARING_INNER_DIAMETER_def)
  from s1 s2 pc bc k show ?thesis by (intro exI conjI) simp_all
qed

theorem pin_diameter_equals_bearing_bore_witness:
  "total reference_library \<and>
   (\<exists>plate bearing s1 s2.
     RoundedRectangularPlateWithPins_new reference_library [] = Inr (plate, s1) \<and>
     BallBearing626D_new reference_library [] = Inr (bearing, s2) \<and>
     map (\<lambda>(c, r, e, ct). 2 * r) (circle_extrusions plate) = [8, 6, 8, 6] \<and>
     map (\<lambda>(c, r, e, ct). (2 * r, ct)) (circle_extrusions bearing) =
       [(19, None), (6, Some True)])"
  using pin_diameter_equals_bearing_bore [OF total_reference_library, of "[]"]
  by (simp add: total_reference_library RoundedRectangularPlateWithPins_PIN_DIAMETER_def
      RoundedRectangularPlateWithPins_LIP_DIAMETER_def BallBearing626D_INNER_DIAMETER_def
      BallBearing626D_OUTER_DIAMETER_def BEARING_INNER_DIAMETER_def BEARING_DIAMETER_def)

text \<open>
  Claim C9. Each bearing sits on its pin: the z translation of the first bearing,
  \<open>CIRCLES_PART_HEIGHT - BEARING_PLATE_OFFSET\<close>, is the start of the first pin extrusion,
  that of the second bearing, \<open>CROSS_PART_HEIGHT - BEARING_PLATE_OFFSET\<close>, is the start of
  the second pin extrusion, each pin extrusion ends \<open>BEARING_HEIGHT\<close> above its start, and
  \<open>BEARING_HEIGHT\<close> is the height both cylinders of a bearing are extruded to.
\<close>

theorem bearings_sit_on_pins:
  assumes "total L"
  shows "\<exists>plate bearing s'.
     PlateWithBearingsAssembly_new L s =
       Inr ([AssemblyInit,
             SetLipHeight RoundedRectangularPlateWithPins_LIP_HEIGHT,
             AddComponent (PartComponent plate) None,
             AddComponent (PartComponent bearing)
               (Some [TranslateX (- PIN_DISTANCE / 2),
                      TranslateZ (CIRCLES_PART_HEIGHT - BEARING_PLATE_OFFSET)]),
             AddComponent (PartComponent bearing)
               (Some [TranslateX (PIN_DISTANCE / 2),
                      TranslateZ (CROSS_PART_HEIGHT - BEARING_PLATE_OFFSET)])], s') \<and>
     map (\<lambda>(c, r, e, ct). (r, e)) (circle_extrusions plate) =
       [(RoundedRectangularPlateWithPins_LIP_DIAMETER / 2,
         StartEnd RoundedRectangularPlateWithPins_PLATE_THICKNESS CIRCLES_PART_HEIGHT),
        (RoundedRectangularPlateWithPins_PIN_DIAMETER / 2,
         StartEnd (CIRCLES_PART_HEIGHT - BEARING_PLATE_OFFSET)
                  (CIRCLES_PART_HEIGHT - BEARING_PLATE_OFFSET + BEARING_HEIGHT)),
        (RoundedRectangularPlateWithPins_LIP_DIAMETER / 2,
         StartEnd RoundedRectangularPlateWithPins_PLATE_THICKNESS CROSS_PART_HEIGHT),
        (RoundedRectangularPlateWithPins_PIN_DIAMETER / 2,
         StartEnd (CROSS_PART_HEIGHT - BEARING_PLATE_OFFSET)
                  (CROSS_PART_HEIGHT - BEARING_PLATE_OFFSET + BEARING_HEIGHT))] \<and>
     map (\<lambda>(c, r, e, ct). e) (circle_extrusions bearing) =
       [Height BEARING_HEIGHT, Height BEARING_HEIGHT]"
proof -
  obtain plate where p: "performs L (RoundedRectangularPlateWithPins_new L) plate"
    and pc: "map (\<lambda>(c, r, e, ct). (r, e)) (circle_extrusions plate) =
       [(RoundedRectangularPlateWithPins_LIP_DIAMETER / 2,
         StartEnd RoundedRectangularPlateWithPins_PLATE_THICKNESS CIRCLES_PART_HEIGHT),
        (RoundedRectangularPlateWithPins_PIN_DIAMETER / 2,
         StartEnd (CIRCLES_PART_HEIGHT - BEARING_PLATE_OFFSET)
                  (CIRCLES_PART_HEIGHT - BEARING_PLATE_OFFSET + BEARING_HEIGHT)),
        (RoundedRectangularPlateWithPins_LIP_DIAMETER / 2,
         StartEnd RoundedRectangularPlateWithPins_PLATE_THICKNESS CROSS_PART_HEIGHT),
        (RoundedRectangularPlateWithPins_PIN_DIAMETER / 2,
         StartEnd (CROSS_PART_HEIGHT - BEARING_PLATE_OFFSET)
                  (CROSS_PART_HEIGHT - BEARING_PLATE_OFFSET + BEARING_HEIGHT))]"
    using plate_summary [of L] by auto
  obtain bearing where b: "performs L (BallBearing626D_new L) bearing"
    and bc: "map (\<lambda>(c, r, e, ct). e) (circle_extrusions bearing) =
       [Height BEARING_HEIGHT, Height BEARING_HEIGHT]"
    using bearing_summary [of L] by (auto simp: BallBearing626D_HEIGHT_def)
  from performs_Inr [OF PlateWithBearingsAssembly_new_performs [OF p b] assms, of s]
  obtain s' where run: "PlateWithBearingsAssembly_new L s =
       Inr ([AssemblyInit,
             SetLipHeight RoundedRectangularPlateWithPins_LIP_HEIGHT,
             AddComponent (PartComponent plate) None,
             AddComponent (PartComponent bearing)
               (Some [TranslateX (- PIN_DISTANCE / 2),
                      TranslateZ (CIRCLES_PART_HEIGHT - BEARING_PLATE_OFFSET)]),
             AddComponent (PartComponent bearing)
               (Some [TranslateX (PIN_DISTANCE / 2),
                      TranslateZ (CROSS_PART_HEIGHT - BEARING_PLATE_OFFSET)])], s')"
    by blast
  with pc bc show ?thesis by (intro exI conjI)
qed

theorem bearings_sit_on_pins_witness:
  "total reference_library \<and>
   (\<exists>plate bearing s'.
     PlateWithBearingsAssembly_new reference_library [] =
       Inr ([AssemblyInit,
             SetLipHeight 2,
             AddComponent (PartComponent plate) None,
             AddComponent (PartComponent bearing) (Some [TranslateX (- 25), TranslateZ 4]),
             AddComponent (PartComponent bearing) (Some [TranslateX 25, TranslateZ 6])], s') \<and>
     map (\<lambda>(c, r, e, ct). (r, e)) (circle_extrusions plate) =
       [(4, StartEnd 2 7), (3, StartEnd 4 10), (4, StartEnd 2 9), (3, StartEnd 6 12)] \<and>
     map (\<lambda>(c, r, e, ct). e) (circle_extrusions bearing) = [Height 6, Height 6])"
  using bearings_sit_on_pins [OF total_reference_library, of "[]"]
  by (simp add: total_reference_library PIN_DISTANCE_def BASE_LENGTH_def
      CIRCLES_PART_HEIGHT_def CROSS_PART_HEIGHT_def PLATE_THICKNESS_def LIP_HEIGHT_def
      BEARING_PLATE_OFFSET_def BEARING_HEIGHT_def RoundedRectangularPlateWithPins_LIP_HEIGHT_def
      RoundedRectangularPlateWithPins_LIP_DIAMETER_def
      RoundedRectangularPlateWithPins_PIN_DIAMETER_def
      RoundedRectangularPlateWithPins_PLATE_THICKNESS_def)

text \<open>
  Claim C10. The sliding pin is internally tangent to the rim of the drive disk: the
  profile \<^verbatim>\<open>create_disk\<close> revolves reaches out to \<open>DISK_DIAMETER / 2\<close>, the sliding pin is
  a circle of radius \<open>PIN_DIAMETER / 2\<close> centred at distance \<open>PIN_DISTANCE / sqrt 2\<close>, and
  the distance plus the radius is \<open>DISK_DIAMETER / 2\<close>.
\<close>

theorem sliding_pin_tangent_to_rim:
  assumes "total L"
  shows "\<exists>y1 y2 y3 s1 s2.
     create_disk L self s =
       Inr (self @ [AddOperation (Lathe
              (ClosedPath (Pencil (Sketch yz_plane)
                 [LineTo 0 (BEARING_HEIGHT - BEARING_PLATE_OFFSET),
                  LineBy (BEARING_DIAMETER / 2) 0,
                  LineBy 0 (- BEARING_HEIGHT + BEARING_PLATE_OFFSET),
                  LineTo (DISK_DIAMETER / 2) y1,
                  LineBy 0 GenevaDiskAndHoles_STEP_HEIGHT,
                  LineTo ((GenevaDiskAndHoles_TOP_CIRCLE_DIAMETER - DISK_TOLERANCE) / 2) y2,
                  LineBy 0 GenevaDiskAndHoles_STEP_HEIGHT,
                  LineTo 0 y3]))
              (Axis (Line (origin (Sketch yz_plane)) (Point (Sketch yz_plane) 0 1))))], s1) \<and>
     add_sliding_pin L self s =
       Inr (self @ [AddOperation (Extrusion
              (Circle (Point (Sketch (parallel_plane xy_plane GenevaDiskAndHoles_STEP_HEIGHT))
                         0 (PIN_DISTANCE / sqrt 2))
                      (PIN_DIAMETER / 2))
              (StartEnd 0 PIN_HEIGHT) (Some False))], s2) \<and>
     PIN_DISTANCE / sqrt 2 + PIN_DIAMETER / 2 = DISK_DIAMETER / 2"
proof -
  have t: "PIN_DISTANCE / sqrt 2 + PIN_DIAMETER / 2 = DISK_DIAMETER / 2"
    by (simp add: DISK_DIAMETER_def add_divide_distrib)
  obtain y1 y2 y3 where "performs L (create_disk L self)
     (self @ [AddOperation (Lathe
        (ClosedPath (Pencil (Sketch yz_plane)
           [LineTo 0 (BEARING_HEIGHT - BEARING_PLATE_OFFSET),
            LineBy (BEARING_DIAMETER / 2) 0,
            LineBy 0 (- BEARING_HEIGHT + BEARING_PLATE_OFFSET),
            LineTo (DISK_DIAMETER / 2) y1,
            LineBy 0 GenevaDiskAndHoles_STEP_HEIGHT,
            LineTo ((GenevaDiskAndHoles_TOP_CIRCLE_DIAMETER - DISK_TOLERANCE) / 2) y2,
            LineBy 0 GenevaDiskAndHoles_STEP_HEIGHT,
            LineTo 0 y3]))
        (Axis (Line (origin (Sketch yz_plane)) (Point (Sketch yz_plane) 0 1))))])"
    using create_disk_performs [of L self]
    unfolding GenevaDiskAndHoles_DISK_DIAMETER_def by blast
  from performs_Inr [OF this assms, of s] obtain s1 where d: "create_disk L self s =
       Inr (self @ [AddOperation (Lathe
              (ClosedPath (Pencil (Sketch yz_plane)
                 [LineTo 0 (BEARING_HEIGHT - BEARING_PLATE_OFFSET),
                  LineBy (BEARING_DIAMETER / 2) 0,
                  LineBy 0 (- BEARING_HEIGHT + BEARING_PLATE_OFFSET),
                  LineTo (DISK_DIAMETER / 2) y1,
                  LineBy 0 GenevaDiskAndHoles_STEP_HEIGHT,
                  LineTo ((GenevaDiskAndHoles_TOP_CIRCLE_DIAMETER - DISK_TOLERANCE) / 2) y2,
                  LineBy 0 GenevaDiskAndHoles_STEP_HEIGHT,
                  LineTo 0 y3]))
              (Axis (Line (origin (Sketch yz_plane)) (Point (Sketch yz_plane) 0 1))))], s1)"
    by blast
  from performs_Inr [OF add_sliding_pin_performs assms, of self s]
  obtain s2 where p: "add_sliding_pin L self s =
       Inr (self @ [AddOperation (Extrusion
              (Circle (Point (Sketch (parallel_plane xy_plane GenevaDiskAndHoles_STEP_HEIGHT))
                         0 (PIN_DISTANCE / sqrt 2))
                      (PIN_DIAMETER / 2))
              (StartEnd 0 PIN_HEIGHT) (Some False))], s2)"
    by blast
  from d p t show ?thesis by (intro exI conjI)
qed

theorem sliding_pin_tangent_to_rim_witness:
  "total reference_library \<and>
   (\<exists>s2. add_sliding_pin reference_library [] [] =
       Inr ([AddOperation (Extrusion
              (Circle (Point (Sketch (parallel_plane xy_plane (5 / 2))) 0 (50 / sqrt 2)) 2)
              (StartEnd 0 8) (Some False))], s2)) \<and>
   50 / sqrt 2 + 2 = DISK_DIAMETER / 2"
proof -
  from sliding_pin_tangent_to_rim [OF total_reference_library, of "[]" "[]"]
  obtain s2 where "add_sliding_pin reference_library [] [] =
       Inr ([] @ [AddOperation (Extrusion
              (Circle (Point (Sketch (parallel_plane xy_plane GenevaDiskAndHoles_STEP_HEIGHT))
                         0 (PIN_DISTANCE / sqrt 2))
                      (PIN_DIAMETER / 2))
              (StartEnd 0 PIN_HEIGHT) (Some False))], s2)"
    and "PIN_DISTANCE / sqrt 2 + PIN_DIAMETER / 2 = DISK_DIAMETER / 2"
    by blast
  then show ?thesis
    using total_reference_library
    by (simp add: PIN_DISTANCE_def BASE_LENGTH_def PIN_DIAMETER_def PIN_HEIGHT_def
        GenevaDiskAndHoles_STEP_HEIGHT_def GenevaDiskAndHoles_PART_THICKNESS_def)
qed

end
